theory Spec2Isabelle
  imports Main "HOL-Library.Word" "HOL-Library.Multiset"
begin

section \<open>Python values decoded from JSON\<close>

text \<open>
  Every value the exporter handles comes out of \<^verbatim>\<open>response.json()\<close>. A float is kept
  as its 64 bits, an object as its entries in insertion order. A decoded object has no
  repeated key; a lookup in a list with one takes the first, and no property below needs
  the keys to be distinct.
\<close>

datatype json =
    JNull
  | JBool bool
  | JInt int
  | JFloat "64 word"
  | JStr string
  | JList "json list"
  | JDict "(string \<times> json) list"

text \<open>
  One constructor for each \<^verbatim>\<open>raise\<close> of the source (the line is given), and
  one for each built-in exception the interpreter raises on the operations used.
\<close>

datatype error =
    GetStatsError json            \<comment> \<open>line 68, \<^verbatim>\<open>Get stats error! Data: ...\<close>\<close>
  | GetStatsBadHTTP int           \<comment> \<open>line 136\<close>
  | GetLoginBadHTTP int           \<comment> \<open>line 80\<close>
  | GetLoginBadCredentials        \<comment> \<open>line 83\<close>
  | GetConnectionBadHTTP int      \<comment> \<open>lines 95 and 107\<close>
  | GetConnectionBadResponse      \<comment> \<open>lines 98 and 110\<close>
  | RequestException              \<comment> \<open>\<^verbatim>\<open>session.post\<close> raised\<close>
  | JSONDecodeError               \<comment> \<open>\<^verbatim>\<open>response.json()\<close> raised\<close>
  | TypeError
  | KeyError json
  | IndexError
  | AttributeError

definition bindE :: "error + 'a \<Rightarrow> ('a \<Rightarrow> error + 'b) \<Rightarrow> error + 'b" where
  "bindE r f = (case r of Inl e \<Rightarrow> Inl e | Inr x \<Rightarrow> f x)"

text \<open>\<^verbatim>\<open>bool(x)\<close>, as \<^verbatim>\<open>not x\<close> and \<^verbatim>\<open>if x\<close> read it. Both float zeros are false.\<close>

fun truthy :: "json \<Rightarrow> bool" where
  "truthy JNull = False"
| "truthy (JBool b) = b"
| "truthy (JInt i) = (i \<noteq> 0)"
| "truthy (JFloat w) = (push_bit 1 w \<noteq> 0)"
| "truthy (JStr s) = (s \<noteq> [])"
| "truthy (JList xs) = (xs \<noteq> [])"
| "truthy (JDict d) = (d \<noteq> [])"

text \<open>\<^verbatim>\<open>x[k]\<close> with a string key \<open>k\<close>.\<close>

fun getitem_str :: "json \<Rightarrow> string \<Rightarrow> error + json" where
  "getitem_str (JDict d) k = (case map_of d k of None \<Rightarrow> Inl (KeyError (JStr k)) | Some v \<Rightarrow> Inr v)"
| "getitem_str _ k = Inl TypeError"

text \<open>\<^verbatim>\<open>x[i]\<close> with a non-negative integer literal \<open>i\<close>.\<close>

fun getitem_idx :: "json \<Rightarrow> nat \<Rightarrow> error + json" where
  "getitem_idx (JList xs) i = (if i < length xs then Inr (xs ! i) else Inl IndexError)"
| "getitem_idx (JStr s) i = (if i < length s then Inr (JStr [s ! i]) else Inl IndexError)"
| "getitem_idx (JDict d) i = Inl (KeyError (JInt (int i)))"
| "getitem_idx _ i = Inl TypeError"

fun py_len :: "json \<Rightarrow> error + nat" where
  "py_len (JList xs) = Inr (length xs)"
| "py_len (JStr s) = Inr (length s)"
| "py_len (JDict d) = Inr (length d)"
| "py_len _ = Inl TypeError"

text \<open>\<^verbatim>\<open>for x in v\<close>: the elements that the loop visits.\<close>

fun py_iter :: "json \<Rightarrow> error + json list" where
  "py_iter (JList xs) = Inr xs"
| "py_iter (JStr s) = Inr (map (\<lambda>c. JStr [c]) s)"
| "py_iter (JDict d) = Inr (map (\<lambda>(k, v). JStr k) d)"
| "py_iter _ = Inl TypeError"

text \<open>\<^verbatim>\<open>d.get(k, default)\<close>, \<^verbatim>\<open>d.items()\<close> and \<^verbatim>\<open>d[k] = v\<close>.\<close>

fun dict_get :: "json \<Rightarrow> string \<Rightarrow> json \<Rightarrow> error + json" where
  "dict_get (JDict d) k dflt = Inr (case map_of d k of None \<Rightarrow> dflt | Some v \<Rightarrow> v)"
| "dict_get _ k dflt = Inl AttributeError"

fun dict_items :: "json \<Rightarrow> error + (string \<times> json) list" where
  "dict_items (JDict d) = Inr d"
| "dict_items _ = Inl AttributeError"

fun dict_set :: "string \<Rightarrow> json \<Rightarrow> (string \<times> json) list \<Rightarrow> (string \<times> json) list" where
  "dict_set k v [] = [(k, v)]"
| "dict_set k v ((k', v') # d) = (if k' = k then (k, v) # d else (k', v') # dict_set k v d)"

fun setitem :: "json \<Rightarrow> string \<Rightarrow> json \<Rightarrow> error + json" where
  "setitem (JDict d) k v = Inr (JDict (dict_set k v d))"
| "setitem _ k v = Inl TypeError"

text \<open>
  \<^verbatim>\<open>str.lower()\<close> on the ASCII letters; every other character is kept. The case
  mapping of characters outside ASCII is not modelled.
\<close>

definition lower_char :: "char \<Rightarrow> char" where
  "lower_char c =
     (let n = (of_char c :: nat) in if 65 \<le> n \<and> n \<le> 90 then char_of (n + 32) else c)"

definition lower :: "string \<Rightarrow> string" where
  "lower s = map lower_char s"

fun lower_method :: "json \<Rightarrow> error + json" where
  "lower_method (JStr s) = Inr (JStr (lower s))"
| "lower_method _ = Inl AttributeError"

fun isinstance_int :: "json \<Rightarrow> bool" where
  "isinstance_int (JInt i) = True"
| "isinstance_int (JBool b) = True"
| "isinstance_int _ = False"

fun isinstance_float :: "json \<Rightarrow> bool" where
  "isinstance_float (JFloat w) = True"
| "isinstance_float _ = False"

section \<open>Transport\<close>

text \<open>The payload of a request; \<open>rpc_method\<close> is its \<^verbatim>\<open>"method"\<close> entry, and its \<^verbatim>\<open>"id"\<close> is always 1.\<close>

record request =
  url :: string
  rpc_method :: string
  params :: "json list"

text \<open>A response: its status code and what \<^verbatim>\<open>response.json()\<close> decodes, if it decodes.\<close>

record response =
  status_code :: int
  body :: "json option"

text \<open>A log record keeps the message and its arguments, as \<^verbatim>\<open>logging\<close> does.\<close>

datatype log_record = INFO string "json list" | ERROR error

text \<open>
  What a call can change outside the collector: the requests posted so far and the lines
  logged so far.
\<close>

record world =
  sent :: "request list"
  logged :: "log_record list"

text \<open>
  The upstream answers a request knowing every request posted before it (the last of the
  list is the one being answered); \<open>None\<close> is \<^verbatim>\<open>session.post\<close> raising.
\<close>

type_synonym upstream = "request list \<Rightarrow> response option"

definition post :: "upstream \<Rightarrow> request \<Rightarrow> world \<Rightarrow> (error + response) \<times> world" where
  "post up req w =
     (let w' = w\<lparr>sent := sent w @ [req]\<rparr>
      in (case up (sent w') of None \<Rightarrow> (Inl RequestException, w') | Some r \<Rightarrow> (Inr r, w')))"

definition response_json :: "response \<Rightarrow> error + json" where
  "response_json r = (case body r of None \<Rightarrow> Inl JSONDecodeError | Some j \<Rightarrow> Inr j)"

definition logging_info :: "string \<Rightarrow> json list \<Rightarrow> world \<Rightarrow> world" where
  "logging_info msg args w = w\<lparr>logged := logged w @ [INFO msg args]\<rparr>"

definition logging_error :: "error \<Rightarrow> world \<Rightarrow> world" where
  "logging_error e w = w\<lparr>logged := logged w @ [ERROR e]\<rparr>"

definition bindS ::
  "(error + 'a) \<times> world \<Rightarrow> ('a \<Rightarrow> world \<Rightarrow> (error + 'b) \<times> world) \<Rightarrow> (error + 'b) \<times> world" where
  "bindS r f = (case r of (Inl e, w) \<Rightarrow> (Inl e, w) | (Inr x, w) \<Rightarrow> f x w)"

section \<open>The collector: session handling\<close>

record collector =
  deluge_api_url :: string
  deluge_password :: string

definition update_ui_fields :: "json list" where
  "update_ui_fields = map JStr
     [''label'', ''name'', ''state'', ''tracker_host'', ''total_uploaded'', ''total_wanted'',
      ''total_done'', ''download_payload_rate'', ''upload_payload_rate'', ''total_peers'',
      ''total_seeds'', ''num_peers'', ''num_seeds'']"

definition update_ui_request :: "collector \<Rightarrow> request" where
  "update_ui_request c =
     \<lparr>url = deluge_api_url c, rpc_method = ''web.update_ui'',
      params = [JList update_ui_fields, JDict []]\<rparr>"

definition login_request :: "collector \<Rightarrow> request" where
  "login_request c =
     \<lparr>url = deluge_api_url c, rpc_method = ''auth.login'', params = [JStr (deluge_password c)]\<rparr>"

definition get_hosts_request :: "collector \<Rightarrow> request" where
  "get_hosts_request c = \<lparr>url = deluge_api_url c, rpc_method = ''web.get_hosts'', params = []\<rparr>"

definition connect_request :: "collector \<Rightarrow> json \<Rightarrow> request" where
  "connect_request c server_id =
     \<lparr>url = deluge_api_url c, rpc_method = ''web.connect'', params = [server_id]\<rparr>"

definition get_webui_data :: "collector \<Rightarrow> upstream \<Rightarrow> world \<Rightarrow> (error + json) \<times> world" where
  "get_webui_data c up w =
     bindS (post up (update_ui_request c) w) (\<lambda>response w.
       if status_code response \<noteq> 200 then (Inl (GetStatsBadHTTP (status_code response)), w)
       else (bindE (response_json response) (\<lambda>j. getitem_str j ''result''), w))"

definition get_login :: "collector \<Rightarrow> upstream \<Rightarrow> world \<Rightarrow> (error + unit) \<times> world" where
  "get_login c up w =
     bindS (post up (login_request c) (logging_info ''Loging in Deluge Web UI...'' [] w))
       (\<lambda>response w.
         if status_code response \<noteq> 200 then (Inl (GetLoginBadHTTP (status_code response)), w)
         else bindS (bindE (response_json response) (\<lambda>j. getitem_str j ''result''), w)
           (\<lambda>result w.
             if \<not> truthy result then (Inl GetLoginBadCredentials, w)
             else (Inr (), logging_info ''Loging successful!'' [] w)))"

text \<open>
  Line 97 is \<^verbatim>\<open>not result or len(result) < 1\<close>: \<^verbatim>\<open>len\<close> is reached only for a
  truthy result, and raises on a number or \<^verbatim>\<open>True\<close>.
\<close>

definition get_connection :: "collector \<Rightarrow> upstream \<Rightarrow> world \<Rightarrow> (error + unit) \<times> world" where
  "get_connection c up w =
     bindS (post up (get_hosts_request c) (logging_info ''Connecting Deluge Web UI...'' [] w))
       (\<lambda>response w.
         if status_code response \<noteq> 200
         then (Inl (GetConnectionBadHTTP (status_code response)), w)
         else bindS (bindE (response_json response) (\<lambda>j. getitem_str j ''result''), w)
           (\<lambda>result w.
             if \<not> truthy result then (Inl GetConnectionBadResponse, w)
             else bindS (py_len result, w) (\<lambda>n w.
               if n < 1 then (Inl GetConnectionBadResponse, w)
               else bindS (bindE (getitem_idx result 0) (\<lambda>host. getitem_idx host 0), w)
                 (\<lambda>server_id w.
                   bindS (post up (connect_request c server_id) w) (\<lambda>response w.
                     if status_code response \<noteq> 200
                     then (Inl (GetConnectionBadHTTP (status_code response)), w)
                     else bindS
                       (bindE (response_json response) (\<lambda>j. getitem_str j ''result''), w)
                       (\<lambda>result w.
                         if \<not> truthy result then (Inl GetConnectionBadResponse, w)
                         else (Inr (), logging_info ''Connected successful!'' [] w)))))))"

definition get_deluge_stats :: "collector \<Rightarrow> upstream \<Rightarrow> world \<Rightarrow> (error + json) \<times> world" where
  "get_deluge_stats c up w =
     bindS (get_webui_data c up w) (\<lambda>data w.
       bindS (if data = JNull
              then bindS (get_login c up w) (\<lambda>_ w. get_webui_data c up w)
              else (Inr data, w))
         (\<lambda>data w.
           bindS (getitem_str data ''connected'', w) (\<lambda>connected w.
             bindS (if \<not> truthy connected
                    then bindS (get_connection c up w) (\<lambda>_ w. get_webui_data c up w)
                    else (Inr data, w))
               (\<lambda>data w.
                 if data = JNull then (Inl (GetStatsError data), w)
                 else bindS (getitem_str data ''connected'', w) (\<lambda>connected w.
                   if \<not> truthy connected then (Inl (GetStatsError data), w)
                   else (Inr data, w))))))"

section \<open>The collector: from the status to metrics\<close>

text \<open>
  A metric family as \<^verbatim>\<open>GaugeMetricFamily(name, documentation, labels=...)\<close> builds it
  and \<^verbatim>\<open>add_metric(labels, value)\<close> fills it: every sample is the list of its label
  values and its value. What the client library does when a family is built or once it is
  yielded, such as checking the metric name, is not part of the exporter and is not
  modelled.
\<close>

record metric =
  metric_name :: string
  documentation :: string
  labelnames :: "string list"
  samples :: "(json list \<times> json) list"

text \<open>
  \<^verbatim>\<open>collect\<close> is a generator: a run of it is the families it yields and the
  exception that ends it, if one does.
\<close>

record generator_run =
  yielded :: "metric list"
  raised :: "error option"

text \<open>Lines 30 and 31, and lines 37 and 38: one sample for each entry of a filter.\<close>

fun add_filter_metrics :: "json list \<Rightarrow> error + (json list \<times> json) list" where
  "add_filter_metrics [] = Inr []"
| "add_filter_metrics (state # rest) =
     bindE (getitem_idx state 0) (\<lambda>s0.
     bindE (lower_method s0) (\<lambda>l.
     bindE (getitem_idx state 1) (\<lambda>v.
     bindE (add_filter_metrics rest) (\<lambda>more. Inr (([l], v) # more)))))"

definition torrents_by_state :: "json \<Rightarrow> error + metric" where
  "torrents_by_state deluge_stats =
     bindE (getitem_str deluge_stats ''filters'') (\<lambda>filters.
     bindE (getitem_str filters ''state'') (\<lambda>states.
     bindE (py_iter states) (\<lambda>entries.
     bindE (add_filter_metrics entries) (\<lambda>ss.
       Inr \<lparr>metric_name = ''deluge_torrent_state_count'',
            documentation = ''Number of torrents by state'',
            labelnames = [''state''], samples = ss\<rparr>))))"

definition torrents_by_label :: "json \<Rightarrow> error + metric" where
  "torrents_by_label deluge_stats =
     bindE (getitem_str deluge_stats ''filters'') (\<lambda>filters.
     bindE (dict_get filters ''label'' (JList [])) (\<lambda>labels.
     bindE (py_iter labels) (\<lambda>entries.
     bindE (add_filter_metrics entries) (\<lambda>ss.
       Inr \<lparr>metric_name = ''deluge_torrent_label_count'',
            documentation = ''Number of torrents by label'',
            labelnames = [''label''], samples = ss\<rparr>))))"

text \<open>Lines 42 to 48: the loop over \<^verbatim>\<open>deluge_stats["stats"].items()\<close>.\<close>

fun other_stats :: "(string \<times> json) list \<Rightarrow> metric list" where
  "other_stats [] = []"
| "other_stats ((key, v) # rest) =
     (if isinstance_int v \<or> isinstance_float v
      then \<lparr>metric_name = ''deluge_'' @ lower key, documentation = ''Deluge metric '' @ key,
            labelnames = [], samples = [([], v)]\<rparr> # other_stats rest
      else other_stats rest)"

text \<open>
  \<^verbatim>\<open>process_torrents_stats\<close>. \<open>counters\<close> pairs each key of \<^verbatim>\<open>res\<close> with the torrent
  field that lines 155 to 163 append under it, in the order of those lines. A row is the
  four-element list \<^verbatim>\<open>[name, state, tracker_host, value]\<close>.
\<close>

type_synonym row = "json \<times> json \<times> json \<times> json"

definition counters :: "(string \<times> string) list" where
  "counters =
     [(''total_uploaded_bytes'', ''total_uploaded''),
      (''total_wanted_bytes'', ''total_wanted''),
      (''total_done_bytes'', ''total_done''),
      (''download_payload_byte_rate'', ''download_payload_rate''),
      (''upload_payload_byte_rate'', ''upload_payload_rate''),
      (''peers_total'', ''total_peers''),
      (''seeds_total'', ''total_seeds''),
      (''peers_connected_total'', ''num_peers''),
      (''seeds_connected_total'', ''num_seeds'')]"

definition res_init :: "(string \<times> row list) list" where
  "res_init =
     [(''total_uploaded_bytes'', []),
      (''total_wanted_bytes'', []),
      (''total_done_bytes'', []),
      (''download_payload_byte_rate'', []),
      (''upload_payload_byte_rate'', []),
      (''peers_total'', []),
      (''seeds_total'', []),
      (''peers_connected_total'', []),
      (''seeds_connected_total'', [])]"

definition res_append :: "string \<Rightarrow> row \<Rightarrow> (string \<times> row list) list \<Rightarrow> (string \<times> row list) list" where
  "res_append key r res = map (\<lambda>(k, rows). if k = key then (k, rows @ [r]) else (k, rows)) res"

definition torrent_row :: "json \<Rightarrow> string \<Rightarrow> error + row" where
  "torrent_row torrent field =
     bindE (getitem_str torrent ''name'') (\<lambda>n.
     bindE (getitem_str torrent ''state'') (\<lambda>s.
     bindE (getitem_str torrent ''tracker_host'') (\<lambda>h.
     bindE (getitem_str torrent field) (\<lambda>v. Inr (n, s, h, v)))))"

fun append_rows ::
  "json \<Rightarrow> (string \<times> string) list \<Rightarrow> (string \<times> row list) list \<Rightarrow> error + (string \<times> row list) list" where
  "append_rows torrent [] res = Inr res"
| "append_rows torrent ((key, field) # rest) res =
     bindE (torrent_row torrent field) (\<lambda>r. append_rows torrent rest (res_append key r res))"

text \<open>
  One turn of the loop of line 153. The second component is the torrent record as the
  turn leaves it: line 154 has replaced its state once the lower-casing succeeded.
\<close>

definition process_torrent ::
  "json \<Rightarrow> (string \<times> row list) list \<Rightarrow> (error + (string \<times> row list) list) \<times> json" where
  "process_torrent torrent res =
     (case bindE (getitem_str torrent ''state'') lower_method of
        Inl e \<Rightarrow> (Inl e, torrent)
      | Inr s \<Rightarrow>
          (case setitem torrent ''state'' s of
             Inl e \<Rightarrow> (Inl e, torrent)
           | Inr torrent' \<Rightarrow> (append_rows torrent' counters res, torrent')))"

fun process_loop ::
  "(string \<times> json) list \<Rightarrow> (string \<times> row list) list \<Rightarrow>
     (error + (string \<times> row list) list) \<times> (string \<times> json) list" where
  "process_loop [] res = (Inr res, [])"
| "process_loop ((tid, torrent) # rest) res =
     (case process_torrent torrent res of
        (Inl e, torrent') \<Rightarrow> (Inl e, (tid, torrent') # rest)
      | (Inr res', torrent') \<Rightarrow>
          (case process_loop rest res' of (r, rest') \<Rightarrow> (r, (tid, torrent') # rest')))"

fun process_torrents_stats :: "json \<Rightarrow> (error + (string \<times> row list) list) \<times> json" where
  "process_torrents_stats (JDict torrents) =
     (case process_loop torrents res_init of (r, torrents') \<Rightarrow> (r, JDict torrents'))"
| "process_torrents_stats torrents = (Inl AttributeError, torrents)"

text \<open>Lines 52 to 57: one family with one sample for each row under each key.\<close>

definition torrent_metric :: "string \<Rightarrow> row \<Rightarrow> metric" where
  "torrent_metric key torrent =
     (case torrent of (t0, t1, t2, t3) \<Rightarrow>
        \<lparr>metric_name = ''deluge_'' @ lower key,
         documentation = ''Deluge metric '' @ key @ '' by torrent'',
         labelnames = [''name'', ''state'', ''tracker_host''],
         samples = [([t0, t1, t2], t3)]\<rparr>)"

definition torrents_stats :: "(string \<times> row list) list \<Rightarrow> metric list" where
  "torrents_stats res = concat (map (\<lambda>(key, rows). map (torrent_metric key) rows) res)"

text \<open>
  Lines 27 to 57, the body of \<^verbatim>\<open>collect\<close> below its \<^verbatim>\<open>try\<close>: the four parts in
  order, each yielding after the ones before it, the first exception ending the run.
  Line 154 writes into the torrent records of \<^verbatim>\<open>deluge_stats\<close>, so the second
  component is \<^verbatim>\<open>deluge_stats\<close> as the run leaves it.
\<close>

definition with_torrents :: "json \<Rightarrow> json \<Rightarrow> json" where
  "with_torrents deluge_stats torrents =
     (case deluge_stats of JDict d \<Rightarrow> JDict (dict_set ''torrents'' torrents d) | _ \<Rightarrow> deluge_stats)"

definition collect_metrics :: "json \<Rightarrow> generator_run \<times> json" where
  "collect_metrics deluge_stats =
     (case torrents_by_state deluge_stats of
        Inl e \<Rightarrow> (\<lparr>yielded = [], raised = Some e\<rparr>, deluge_stats)
      | Inr m1 \<Rightarrow>
     (case torrents_by_label deluge_stats of
        Inl e \<Rightarrow> (\<lparr>yielded = [m1], raised = Some e\<rparr>, deluge_stats)
      | Inr m2 \<Rightarrow>
     (case bindE (getitem_str deluge_stats ''stats'') dict_items of
        Inl e \<Rightarrow> (\<lparr>yielded = [m1, m2], raised = Some e\<rparr>, deluge_stats)
      | Inr stats \<Rightarrow>
     (case getitem_str deluge_stats ''torrents'' of
        Inl e \<Rightarrow> (\<lparr>yielded = [m1, m2] @ other_stats stats, raised = Some e\<rparr>, deluge_stats)
      | Inr torrents \<Rightarrow>
     (case process_torrents_stats torrents of
        (Inl e, torrents') \<Rightarrow>
          (\<lparr>yielded = [m1, m2] @ other_stats stats, raised = Some e\<rparr>,
           with_torrents deluge_stats torrents')
      | (Inr res, torrents') \<Rightarrow>
          (\<lparr>yielded = [m1, m2] @ other_stats stats @ torrents_stats res, raised = None\<rparr>,
           with_torrents deluge_stats torrents'))))))"

text \<open>
  \<^verbatim>\<open>collect\<close>: the \<^verbatim>\<open>try\<close> of lines 21 to 25 covers the call of
  \<^verbatim>\<open>get_deluge_stats\<close> only; its handler logs the exception and returns, which ends
  the generator with nothing yielded.
\<close>

definition collect :: "collector \<Rightarrow> upstream \<Rightarrow> world \<Rightarrow> generator_run \<times> world" where
  "collect self up w =
     (case get_deluge_stats self up w of
        (Inl e, w') \<Rightarrow> (\<lparr>yielded = [], raised = None\<rparr>, logging_error e w')
      | (Inr deluge_stats, w') \<Rightarrow> (fst (collect_metrics deluge_stats), w'))"

text \<open>
  An observation is a family's name, the labels of one of its samples, and the sample's
  value.
\<close>

definition observations :: "metric list \<Rightarrow> (string \<times> (string \<times> json) list \<times> json) list" where
  "observations ms =
     concat (map (\<lambda>m. map (\<lambda>(ls, v). (metric_name m, zip (labelnames m) ls, v)) (samples m)) ms)"

section \<open>Start-up\<close>

text \<open>\<^verbatim>\<open>DelugeCollector(deluge_url, deluge_password)\<close>, lines 13 to 18.\<close>

definition endswith_slash :: "string \<Rightarrow> bool" where
  "endswith_slash s = (s \<noteq> [] \<and> last s = CHR ''/'')"

definition DelugeCollector ::
  "string \<Rightarrow> string \<Rightarrow> upstream \<Rightarrow> world \<Rightarrow> (error + collector) \<times> world" where
  "DelugeCollector deluge_url password up w =
     (let self = \<lparr>deluge_api_url =
                    (if endswith_slash deluge_url then deluge_url else deluge_url @ ''/'') @ ''json'',
                  deluge_password = password\<rparr>
      in bindS (get_deluge_stats self up w) (\<lambda>_ w. (Inr self, w)))"

text \<open>
  Lines 194 to 199 of \<^verbatim>\<open>main\<close>, with the four settings that the lines before them
  read from the environment as arguments. The calls into the client library are kept as
  the events \<open>Registered\<close> and \<open>HttpServerStarted\<close>, in the order they are made; what
  the library does inside them is not modelled. \<open>Inr\<close> is reaching the sleep loop of
  line 200.
\<close>

datatype event = Registered collector | HttpServerStarted int string

definition main ::
  "string \<Rightarrow> string \<Rightarrow> string \<Rightarrow> int \<Rightarrow> upstream \<Rightarrow> world \<Rightarrow>
     (error + event list) \<times> world" where
  "main deluge_url password exporter_address exporter_port up w =
     bindS (DelugeCollector deluge_url password up w) (\<lambda>c w.
       (Inr [Registered c, HttpServerStarted exporter_port exporter_address],
        logging_info ''Server listening in http://%s:%d/metrics''
          [JStr exporter_address, JInt exporter_port] w))"

section \<open>Notions used to state the properties\<close>



text \<open>
  The fields that lines 154 to 163 read from every torrent record.
\<close>

definition required_fields :: "string list" where
  "required_fields =
     [''name'', ''state'', ''tracker_host'', ''total_uploaded'', ''total_wanted'', ''total_done'',
      ''download_payload_rate'', ''upload_payload_rate'', ''total_peers'', ''total_seeds'',
      ''num_peers'', ''num_seeds'']"

text \<open>
  A numeric value: an \<^verbatim>\<open>int\<close>, a \<^verbatim>\<open>float\<close>, or a \<^verbatim>\<open>bool\<close>, which Python
  makes a subtype of \<^verbatim>\<open>int\<close>. \<open>int_value\<close> is the integer that an instance of
  \<^verbatim>\<open>int\<close> stands for: \<^verbatim>\<open>True\<close> is 1 and \<^verbatim>\<open>False\<close> is 0.
\<close>

fun numeric :: "json \<Rightarrow> bool" where
  "numeric (JInt i) = True"
| "numeric (JFloat x) = True"
| "numeric (JBool b) = True"
| "numeric _ = False"

fun int_value :: "json \<Rightarrow> int option" where
  "int_value (JInt i) = Some i"
| "int_value (JBool b) = Some (if b then 1 else 0)"
| "int_value _ = None"

text \<open>
  The family that line 45 builds for an entry of the stats and line 47 gives its one
  sample, without labels.
\<close>

definition stats_metric :: "string \<Rightarrow> json \<Rightarrow> metric" where
  "stats_metric key v =
     \<lparr>metric_name = ''deluge_'' @ lower key, documentation = ''Deluge metric '' @ key,
      labelnames = [], samples = [([], v)]\<rparr>"

text \<open>
  The filters of a status as Deluge reports them: a dictionary with a list of
  \<^verbatim>\<open>[value, count]\<close> entries under \<^verbatim>\<open>state\<close> and, when labels are configured, under
  \<^verbatim>\<open>label\<close>, each value being a string.
\<close>

fun filter_entry_ok :: "json \<Rightarrow> bool" where
  "filter_entry_ok (JList (JStr l # v # others)) = True"
| "filter_entry_ok _ = False"

definition filters_ok :: "json \<Rightarrow> bool" where
  "filters_ok deluge_stats =
     (case getitem_str deluge_stats ''filters'' of
        Inr (JDict filters) \<Rightarrow>
          (case map_of filters ''state'' of
             Some (JList states) \<Rightarrow> list_all filter_entry_ok states
           | _ \<Rightarrow> False)
          \<and> (case map_of filters ''label'' of
                None \<Rightarrow> True
              | Some (JList labels) \<Rightarrow> list_all filter_entry_ok labels
              | _ \<Rightarrow> False)
      | _ \<Rightarrow> False)"

section \<open>Example inputs\<close>

text \<open>
  A collector, an empty history, and a successful reply with a given \<^verbatim>\<open>result\<close>.
\<close>

definition example_collector :: collector where
  "example_collector = \<lparr>deluge_api_url = ''http://deluge:8112/json'', deluge_password = ''deluge''\<rparr>"

definition world0 :: world where "world0 = \<lparr>sent = [], logged = []\<rparr>"

definition reply :: "json \<Rightarrow> response option" where
  "reply result = Some \<lparr>status_code = 200, body = Some (JDict [(''result'', result)])\<rparr>"

text \<open>
  A status with one complete torrent, whose state is capitalised as Deluge reports it;
  one with a second torrent that has no name; one whose stats hold a boolean; and a
  status without torrents, connected or not.
\<close>

definition example_status :: json where
  "example_status = JDict
     [(''connected'', JBool True),
      (''filters'', JDict [(''state'', JList [JList [JStr ''Seeding'', JInt 1]])]),
      (''stats'', JDict [(''upload_rate'', JInt 1024), (''external_ip'', JStr ''10.0.0.1'')]),
      (''torrents'', JDict [(''t1'', JDict
         [(''name'', JStr ''A''), (''state'', JStr ''Seeding''), (''tracker_host'', JStr ''h''),
          (''total_uploaded'', JInt 1), (''total_wanted'', JInt 2), (''total_done'', JInt 3),
          (''download_payload_rate'', JInt 4), (''upload_payload_rate'', JInt 5),
          (''total_peers'', JInt 6), (''total_seeds'', JInt 7), (''num_peers'', JInt 8),
          (''num_seeds'', JInt 9)])])]"

definition example_status_incomplete :: json where
  "example_status_incomplete = JDict
     [(''connected'', JBool True),
      (''filters'', JDict [(''state'', JList [JList [JStr ''Seeding'', JInt 2]])]),
      (''stats'', JDict [(''upload_rate'', JInt 1024)]),
      (''torrents'', JDict
         [(''t1'', JDict
            [(''name'', JStr ''A''), (''state'', JStr ''Seeding''), (''tracker_host'', JStr ''h''),
             (''total_uploaded'', JInt 1), (''total_wanted'', JInt 2), (''total_done'', JInt 3),
             (''download_payload_rate'', JInt 4), (''upload_payload_rate'', JInt 5),
             (''total_peers'', JInt 6), (''total_seeds'', JInt 7), (''num_peers'', JInt 8),
             (''num_seeds'', JInt 9)]),
          (''t2'', JDict
            [(''state'', JStr ''Seeding''), (''tracker_host'', JStr ''h''),
             (''total_uploaded'', JInt 1), (''total_wanted'', JInt 2), (''total_done'', JInt 3),
             (''download_payload_rate'', JInt 4), (''upload_payload_rate'', JInt 5),
             (''total_peers'', JInt 6), (''total_seeds'', JInt 7), (''num_peers'', JInt 8),
             (''num_seeds'', JInt 9)])])]"

definition example_status_bool :: json where
  "example_status_bool = JDict
     [(''connected'', JBool True), (''filters'', JDict [(''state'', JList [])]),
      (''stats'', JDict [(''has_incoming_connections'', JBool True)]),
      (''torrents'', JDict [])]"

definition status_connected :: "bool \<Rightarrow> json" where
  "status_connected b = JDict
     [(''connected'', JBool b), (''filters'', JDict [(''state'', JList [])]),
      (''stats'', JDict []), (''torrents'', JDict [])]"

text \<open>
  Upstreams: one that answers every status query with \<^verbatim>\<open>null\<close> and accepts the login;
  one that rejects the login; one that is disconnected until \<^verbatim>\<open>web.connect\<close> has been
  called; one whose host list holds an empty entry; one that answers with
  \<open>example_status_incomplete\<close>; one that cannot be reached.
\<close>

definition upstream_null_status :: upstream where
  "upstream_null_status tr =
     (if rpc_method (last tr) = ''auth.login'' then reply (JBool True) else reply JNull)"

definition upstream_rejects_login :: upstream where
  "upstream_rejects_login tr =
     (if rpc_method (last tr) = ''auth.login'' then reply (JBool False) else reply JNull)"

definition upstream_disconnected :: upstream where
  "upstream_disconnected tr =
     (if rpc_method (last tr) = ''web.get_hosts''
      then reply (JList [JList [JStr ''host1'', JStr ''127.0.0.1'', JInt 58846, JStr ''localclient'']])
      else if rpc_method (last tr) = ''web.connect'' then reply (JBool True)
      else reply (status_connected (list_ex (\<lambda>req. rpc_method req = ''web.connect'') tr)))"

definition upstream_empty_host_entry :: upstream where
  "upstream_empty_host_entry tr =
     (if rpc_method (last tr) = ''web.get_hosts'' then reply (JList [JList []])
      else reply (status_connected False))"

definition upstream_incomplete :: upstream where
  "upstream_incomplete tr = reply example_status_incomplete"

definition upstream_unreachable :: upstream where
  "upstream_unreachable tr = None"

section \<open>Properties of the session handling\<close>

subsection \<open>Auxiliary facts\<close>

lemma bindS_simps:
  "bindS (Inl e, w) f = (Inl e, w)"
  "bindS (Inr x, w) f = f x w"
  by (simp_all add: bindS_def)

lemma bindE_simps:
  "bindE (Inl e) f = Inl e"
  "bindE (Inr x) f = f x"
  by (simp_all add: bindE_def)

lemma post_sent: "post up req w = (r, w') \<Longrightarrow> w' = w\<lparr>sent := sent w @ [req]\<rparr>"
  by (auto simp: post_def Let_def split: option.splits)

lemma get_webui_data_world:
  "get_webui_data c up w = (r, w') \<Longrightarrow> w' = w\<lparr>sent := sent w @ [update_ui_request c]\<rparr>"
  by (cases "post up (update_ui_request c) w")
     (auto simp: get_webui_data_def bindS_def dest: post_sent split: sum.splits if_splits)

text \<open>
  Whatever \<^verbatim>\<open>get_deluge_stats\<close> returns is a dictionary whose \<^verbatim>\<open>connected\<close> entry
  is true.
\<close>

lemma get_deluge_stats_returns_connected:
  assumes "get_deluge_stats c up w = (Inr data, w')"
  shows "\<exists>v. getitem_str data ''connected'' = Inr v \<and> truthy v"
  using assms
  by (auto simp: get_deluge_stats_def bindS_def split: sum.splits if_splits prod.splits)

lemma get_login_failure:
  assumes "up (sent w1 @ [login_request c]) = Some r"
    and "status_code r \<noteq> 200
         \<or> (\<exists>j v. body r = Some j \<and> getitem_str j ''result'' = Inr v \<and> \<not> truthy v)"
  shows "\<exists>e w'. get_login c up w1 = (Inl e, w')
       \<and> (e = GetLoginBadHTTP (status_code r) \<or> e = GetLoginBadCredentials)
       \<and> sent w' = sent w1 @ [login_request c]"
  using assms
  by (auto simp: get_login_def post_def logging_info_def bindS_simps bindE_simps
        response_json_def Let_def)

lemma get_connection_hosts_falsy:
  assumes "up (sent w1 @ [get_hosts_request c]) = Some r1" "status_code r1 = 200"
    "body r1 = Some j1" "getitem_str j1 ''result'' = Inr hosts" "\<not> truthy hosts"
  shows "get_connection c up w1
    = (Inl GetConnectionBadResponse,
       w1\<lparr>sent := sent w1 @ [get_hosts_request c],
          logged := logged w1 @ [INFO ''Connecting Deluge Web UI...'' []]\<rparr>)"
  using assms
  by (simp add: get_connection_def post_def logging_info_def bindS_simps bindE_simps
        response_json_def Let_def)

lemma get_connection_first_host:
  assumes "up (sent w1 @ [get_hosts_request c]) = Some r1" "status_code r1 = 200"
    "body r1 = Some j1" "getitem_str j1 ''result'' = Inr (JList (JList (sid # ids) # others))"
    "up (sent w1 @ [get_hosts_request c, connect_request c sid]) = Some r2"
  shows "get_connection c up w1
    = (let w2 = w1\<lparr>sent := sent w1 @ [get_hosts_request c, connect_request c sid],
                    logged := logged w1 @ [INFO ''Connecting Deluge Web UI...'' []]\<rparr>
       in if status_code r2 \<noteq> 200 then (Inl (GetConnectionBadHTTP (status_code r2)), w2)
          else (case bindE (response_json r2) (\<lambda>j. getitem_str j ''result'') of
                  Inl e \<Rightarrow> (Inl e, w2)
                | Inr ok \<Rightarrow>
                    if \<not> truthy ok then (Inl GetConnectionBadResponse, w2)
                    else (Inr (), logging_info ''Connected successful!'' [] w2)))"
proof -
  let ?wa = "logging_info ''Connecting Deluge Web UI...'' [] w1"
  let ?wb = "?wa\<lparr>sent := sent ?wa @ [get_hosts_request c]\<rparr>"
  have p1: "post up (get_hosts_request c) ?wa = (Inr r1, ?wb)"
    using assms(1) by (simp add: post_def logging_info_def)
  let ?wc = "?wb\<lparr>sent := sent ?wb @ [connect_request c sid]\<rparr>"
  have p2: "post up (connect_request c sid) ?wb = (Inr r2, ?wc)"
    using assms(5) by (simp add: post_def logging_info_def)
  have wc: "?wc = w1\<lparr>sent := sent w1 @ [get_hosts_request c, connect_request c sid],
                    logged := logged w1 @ [INFO ''Connecting Deluge Web UI...'' []]\<rparr>"
    by (simp add: logging_info_def)
  have "get_connection c up w1
    = (if status_code r2 \<noteq> 200 then (Inl (GetConnectionBadHTTP (status_code r2)), ?wc)
          else (case bindE (response_json r2) (\<lambda>j. getitem_str j ''result'') of
                  Inl e \<Rightarrow> (Inl e, ?wc)
                | Inr ok \<Rightarrow>
                    if \<not> truthy ok then (Inl GetConnectionBadResponse, ?wc)
                    else (Inr (), logging_info ''Connected successful!'' [] ?wc)))"
    unfolding get_connection_def p1 bindS_simps
    using assms(2,3,4) p2
    by (simp add: bindS_simps bindE_simps response_json_def split: sum.splits)
  then show ?thesis unfolding wc by (simp add: Let_def)
qed

lemma get_deluge_stats_disconnected:
  assumes reach: "(get_webui_data c up w = (Inr data, w1) \<and> data \<noteq> JNull)
         \<or> (\<exists>wa wb. get_webui_data c up w = (Inr JNull, wa) \<and> get_login c up wa = (Inr (), wb)
               \<and> get_webui_data c up wb = (Inr data, w1))"
    and disc: "getitem_str data ''connected'' = Inr v" "\<not> truthy v"
  shows "get_deluge_stats c up w =
     (case get_connection c up w1 of
        (Inl e, w2) \<Rightarrow> (Inl e, w2)
      | (Inr u, w2) \<Rightarrow>
          (case get_webui_data c up w2 of
             (Inl e, w3) \<Rightarrow> (Inl e, w3)
           | (Inr data', w3) \<Rightarrow>
               if data' = JNull then (Inl (GetStatsError data'), w3)
               else (case getitem_str data' ''connected'' of
                       Inl e \<Rightarrow> (Inl e, w3)
                     | Inr v' \<Rightarrow> if \<not> truthy v' then (Inl (GetStatsError data'), w3)
                                else (Inr data', w3))))"
proof -
  obtain rc w2 where gc: "get_connection c up w1 = (rc, w2)"
    by (cases "get_connection c up w1")
  obtain rd w3 where gd: "get_webui_data c up w2 = (rd, w3)"
    by (cases "get_webui_data c up w2")
  from reach show ?thesis
  proof
    assume "get_webui_data c up w = (Inr data, w1) \<and> data \<noteq> JNull"
    then show ?thesis using disc gc gd
      by (cases rc; cases rd)
         (simp_all add: get_deluge_stats_def bindS_simps bindE_simps split: sum.splits)
  next
    assume "\<exists>wa wb. get_webui_data c up w = (Inr JNull, wa) \<and> get_login c up wa = (Inr (), wb)
               \<and> get_webui_data c up wb = (Inr data, w1)"
    then obtain wa wb where "get_webui_data c up w = (Inr JNull, wa)"
      "get_login c up wa = (Inr (), wb)" "get_webui_data c up wb = (Inr data, w1)" by blast
    then show ?thesis using disc gc gd
      by (cases rc; cases rd)
         (simp_all add: get_deluge_stats_def bindS_simps bindE_simps split: sum.splits)
  qed
qed

subsection \<open>A status that is still null after the login\<close>

text \<open>
  Claim C1 says that a status still \<^verbatim>\<open>null\<close> after the recovery ends the call with
  the exception of line 68. When the first status query returns \<^verbatim>\<open>null\<close>, the login
  succeeds and the second status query returns \<^verbatim>\<open>null\<close> again, line 64 subscripts
  \<^verbatim>\<open>None\<close>: the call ends with \<^verbatim>\<open>TypeError\<close>, and the test \<^verbatim>\<open>data is None\<close> of
  line 67 is not reached.
\<close>

theorem get_deluge_stats_null_after_login:
  assumes "get_webui_data c up w = (Inr JNull, w1)"
    and "get_login c up w1 = (Inr (), w2)"
    and "get_webui_data c up w2 = (Inr JNull, w3)"
  shows "get_deluge_stats c up w = (Inl TypeError, w3)"
  using assms by (simp add: get_deluge_stats_def bindS_simps)

text \<open>
  The upstream \<open>upstream_null_status\<close> is such a case.
\<close>

theorem get_deluge_stats_null_after_login_witness:
  "get_deluge_stats example_collector upstream_null_status world0
    = (Inl TypeError,
       \<lparr>sent = [update_ui_request example_collector, login_request example_collector,
                update_ui_request example_collector],
        logged = [INFO ''Loging in Deluge Web UI...'' [], INFO ''Loging successful!'' []]\<rparr>)"
proof -
  let ?w1 = "\<lparr>sent = [update_ui_request example_collector], logged = []\<rparr>"
  let ?w2 = "\<lparr>sent = [update_ui_request example_collector, login_request example_collector],
              logged = [INFO ''Loging in Deluge Web UI...'' [], INFO ''Loging successful!'' []]\<rparr>"
  have 1: "get_webui_data example_collector upstream_null_status world0 = (Inr JNull, ?w1)"
    by code_simp
  have 2: "get_login example_collector upstream_null_status ?w1 = (Inr (), ?w2)"
    by code_simp
  have 3: "get_webui_data example_collector upstream_null_status ?w2
      = (Inr JNull, \<lparr>sent = [update_ui_request example_collector,
            login_request example_collector, update_ui_request example_collector],
          logged = [INFO ''Loging in Deluge Web UI...'' [], INFO ''Loging successful!'' []]\<rparr>)"
    by code_simp
  show ?thesis by (rule get_deluge_stats_null_after_login[OF 1 2 3])
qed

subsection \<open>A failed login\<close>

text \<open>
  Claim C4. When the first status query returns \<^verbatim>\<open>null\<close> and the reply to the login
  has a status code other than 200 or a false \<^verbatim>\<open>result\<close>, the call ends with one of the
  two exceptions of \<^verbatim>\<open>get_login\<close>, whatever the password is, and the only requests it
  has posted are the status query and the login: neither \<^verbatim>\<open>web.get_hosts\<close> nor
  \<^verbatim>\<open>web.connect\<close>.
\<close>

theorem login_failure_stops_before_connect:
  assumes "get_webui_data c up w = (Inr JNull, w1)"
    and "up (sent w1 @ [login_request c]) = Some r"
    and "status_code r \<noteq> 200
         \<or> (\<exists>j v. body r = Some j \<and> getitem_str j ''result'' = Inr v \<and> \<not> truthy v)"
  shows "\<exists>e w'. get_deluge_stats c up w = (Inl e, w')
       \<and> (e = GetLoginBadHTTP (status_code r) \<or> e = GetLoginBadCredentials)
       \<and> sent w' = sent w @ [update_ui_request c, login_request c]
       \<and> list_all (\<lambda>req. rpc_method req \<noteq> ''web.get_hosts'' \<and> rpc_method req \<noteq> ''web.connect'')
            (drop (length (sent w)) (sent w'))"
proof -
  from get_webui_data_world[OF assms(1)] have s1: "sent w1 = sent w @ [update_ui_request c]"
    by simp
  from get_login_failure[of up w1 c r, OF assms(2,3)] obtain e w' where
    l: "get_login c up w1 = (Inl e, w')"
       "e = GetLoginBadHTTP (status_code r) \<or> e = GetLoginBadCredentials"
       "sent w' = sent w1 @ [login_request c]" by blast
  have "get_deluge_stats c up w = (Inl e, w')"
    using assms(1) l(1) by (simp add: get_deluge_stats_def bindS_simps)
  moreover have "sent w' = sent w @ [update_ui_request c, login_request c]"
    using l(3) s1 by simp
  moreover have "list_all (\<lambda>req. rpc_method req \<noteq> ''web.get_hosts'' \<and> rpc_method req \<noteq> ''web.connect'')
            (drop (length (sent w)) (sent w'))"
    using l(3) s1 by (simp add: update_ui_request_def login_request_def)
  ultimately show ?thesis using l(2) by blast
qed

theorem login_failure_stops_before_connect_witness:
  "\<exists>e w'. get_deluge_stats example_collector upstream_rejects_login world0 = (Inl e, w')
       \<and> (e = GetLoginBadHTTP 200 \<or> e = GetLoginBadCredentials)
       \<and> sent w' = [update_ui_request example_collector, login_request example_collector]"
proof -
  let ?w1 = "\<lparr>sent = [update_ui_request example_collector], logged = []\<rparr>"
  let ?r = "\<lparr>status_code = 200, body = Some (JDict [(''result'', JBool False)])\<rparr>"
  have 1: "get_webui_data example_collector upstream_rejects_login world0 = (Inr JNull, ?w1)"
    by code_simp
  have 2: "upstream_rejects_login (sent ?w1 @ [login_request example_collector]) = Some ?r"
    by code_simp
  have 3: "status_code ?r \<noteq> 200
         \<or> (\<exists>j v. body ?r = Some j \<and> getitem_str j ''result'' = Inr v \<and> \<not> truthy v)"
    by simp
  from login_failure_stops_before_connect
         [of example_collector upstream_rejects_login world0 ?w1 ?r, OF 1 2 3]
  obtain e w' where
    "get_deluge_stats example_collector upstream_rejects_login world0 = (Inl e, w')"
    "e = GetLoginBadHTTP (status_code ?r) \<or> e = GetLoginBadCredentials"
    "sent w' = sent world0 @ [update_ui_request example_collector, login_request example_collector]"
    by blast
  then show ?thesis by (simp add: world0_def)
qed

subsection \<open>The connect recovery\<close>

text \<open>
  Claim C5, as the code has it. Let the status that line 64 reads (the first one, or the
  one fetched after a login) have a false \<^verbatim>\<open>connected\<close> entry, and let the upstream
  answer \<^verbatim>\<open>web.get_hosts\<close> with code 200 and a \<^verbatim>\<open>result\<close>. Then the request posted
  next is \<^verbatim>\<open>web.get_hosts\<close>, and
  \<^item> a false result (\<^verbatim>\<open>null\<close>, \<^verbatim>\<open>false\<close>, zero, an empty list, string or object)
    ends the call with the exception of line 98, no other request being posted;
  \<^item> for a list whose first entry is a non-empty list, \<^verbatim>\<open>web.connect\<close> is posted
    with the first element of that entry; a reply to it with a code other than 200 or
    with a false result ends the call with the exception of line 107 or of line 110;
  \<^item> after a reply with a true result, the status query is posted once more and nothing
    after it.
\<close>

theorem connect_recovery:
  assumes reach: "(get_webui_data c up w = (Inr data, w1) \<and> data \<noteq> JNull)
         \<or> (\<exists>wa wb. get_webui_data c up w = (Inr JNull, wa) \<and> get_login c up wa = (Inr (), wb)
               \<and> get_webui_data c up wb = (Inr data, w1))"
    and disc: "getitem_str data ''connected'' = Inr v" "\<not> truthy v"
    and hosts: "up (sent w1 @ [get_hosts_request c]) = Some r1" "status_code r1 = 200"
      "body r1 = Some j1" "getitem_str j1 ''result'' = Inr hosts"
  shows
   "(\<not> truthy hosts \<longrightarrow>
        fst (get_deluge_stats c up w) = Inl GetConnectionBadResponse
      \<and> sent (snd (get_deluge_stats c up w)) = sent w1 @ [get_hosts_request c])
    \<and> (\<forall>sid ids others r2.
          hosts = JList (JList (sid # ids) # others)
          \<and> up (sent w1 @ [get_hosts_request c, connect_request c sid]) = Some r2 \<longrightarrow>
         (status_code r2 \<noteq> 200 \<longrightarrow>
              fst (get_deluge_stats c up w) = Inl (GetConnectionBadHTTP (status_code r2))
            \<and> sent (snd (get_deluge_stats c up w))
                = sent w1 @ [get_hosts_request c, connect_request c sid])
       \<and> (\<forall>j2 ok. status_code r2 = 200 \<and> body r2 = Some j2
              \<and> getitem_str j2 ''result'' = Inr ok \<longrightarrow>
            (\<not> truthy ok \<longrightarrow>
                 fst (get_deluge_stats c up w) = Inl GetConnectionBadResponse
               \<and> sent (snd (get_deluge_stats c up w))
                   = sent w1 @ [get_hosts_request c, connect_request c sid])
          \<and> (truthy ok \<longrightarrow>
                 sent (snd (get_deluge_stats c up w))
                   = sent w1 @ [get_hosts_request c, connect_request c sid,
                                update_ui_request c])))"
proof -
  note gds = get_deluge_stats_disconnected[OF reach disc]
  have A: "fst (get_deluge_stats c up w) = Inl GetConnectionBadResponse
      \<and> sent (snd (get_deluge_stats c up w)) = sent w1 @ [get_hosts_request c]"
    if "\<not> truthy hosts"
    using gds get_connection_hosts_falsy[of up w1 c r1 j1 hosts, OF hosts that] by simp
  have B: "(status_code r2 \<noteq> 200 \<longrightarrow>
              fst (get_deluge_stats c up w) = Inl (GetConnectionBadHTTP (status_code r2))
            \<and> sent (snd (get_deluge_stats c up w))
                = sent w1 @ [get_hosts_request c, connect_request c sid])
       \<and> (\<forall>j2 ok. status_code r2 = 200 \<and> body r2 = Some j2
              \<and> getitem_str j2 ''result'' = Inr ok \<longrightarrow>
            (\<not> truthy ok \<longrightarrow>
                 fst (get_deluge_stats c up w) = Inl GetConnectionBadResponse
               \<and> sent (snd (get_deluge_stats c up w))
                   = sent w1 @ [get_hosts_request c, connect_request c sid])
          \<and> (truthy ok \<longrightarrow>
                 sent (snd (get_deluge_stats c up w))
                   = sent w1 @ [get_hosts_request c, connect_request c sid,
                                update_ui_request c]))"
    if h: "hosts = JList (JList (sid # ids) # others)"
      and r2: "up (sent w1 @ [get_hosts_request c, connect_request c sid]) = Some r2"
    for sid ids others r2
  proof -
    note gc = get_connection_first_host[of up w1 c r1 j1 sid ids others r2,
        OF hosts(1,2,3) hosts(4)[unfolded h] r2]
    let ?w2 = "w1\<lparr>sent := sent w1 @ [get_hosts_request c, connect_request c sid],
                    logged := logged w1 @ [INFO ''Connecting Deluge Web UI...'' []]\<rparr>"
    have 1: "fst (get_deluge_stats c up w) = Inl (GetConnectionBadHTTP (status_code r2))
            \<and> sent (snd (get_deluge_stats c up w))
                = sent w1 @ [get_hosts_request c, connect_request c sid]"
      if "status_code r2 \<noteq> 200"
      using gds gc that by (simp add: Let_def)
    have 2: "fst (get_deluge_stats c up w) = Inl GetConnectionBadResponse
               \<and> sent (snd (get_deluge_stats c up w))
                   = sent w1 @ [get_hosts_request c, connect_request c sid]"
      if "status_code r2 = 200" "body r2 = Some j2" "getitem_str j2 ''result'' = Inr ok"
        "\<not> truthy ok" for j2 ok
      using gds gc that by (simp add: Let_def response_json_def bindE_simps)
    have 3: "sent (snd (get_deluge_stats c up w))
                   = sent w1 @ [get_hosts_request c, connect_request c sid, update_ui_request c]"
      if t: "status_code r2 = 200" "body r2 = Some j2" "getitem_str j2 ''result'' = Inr ok"
        "truthy ok" for j2 ok
    proof -
      let ?w3 = "logging_info ''Connected successful!'' [] ?w2"
      have c: "get_connection c up w1 = (Inr (), ?w3)"
        using gc t by (simp add: Let_def response_json_def bindE_simps)
      obtain rd w4 where gd: "get_webui_data c up ?w3 = (rd, w4)"
        by (cases "get_webui_data c up ?w3")
      from get_webui_data_world[OF gd]
      have s4: "sent w4 = sent w1 @ [get_hosts_request c, connect_request c sid, update_ui_request c]"
        by (simp add: logging_info_def)
      have "snd (get_deluge_stats c up w) = w4"
        using gds c gd by (cases rd) (simp_all split: sum.splits)
      with s4 show ?thesis by simp
    qed
    from 1 2 3 show ?thesis by blast
  qed
  from A B show ?thesis by blast
qed

theorem connect_recovery_witness:
  "sent (snd (get_deluge_stats example_collector upstream_disconnected world0))
     = [update_ui_request example_collector, get_hosts_request example_collector,
        connect_request example_collector (JStr ''host1''), update_ui_request example_collector]"
proof -
  let ?c = example_collector
  let ?w1 = "\<lparr>sent = [update_ui_request ?c], logged = []\<rparr>"
  let ?hosts = "JList [JList [JStr ''host1'', JStr ''127.0.0.1'', JInt 58846, JStr ''localclient'']]"
  let ?r1 = "\<lparr>status_code = 200, body = Some (JDict [(''result'', ?hosts)])\<rparr>"
  let ?r2 = "\<lparr>status_code = 200, body = Some (JDict [(''result'', JBool True)])\<rparr>"
  have 1: "(get_webui_data ?c upstream_disconnected world0 = (Inr (status_connected False), ?w1)
            \<and> status_connected False \<noteq> JNull)
         \<or> (\<exists>wa wb. get_webui_data ?c upstream_disconnected world0 = (Inr JNull, wa)
               \<and> get_login ?c upstream_disconnected wa = (Inr (), wb)
               \<and> get_webui_data ?c upstream_disconnected wb = (Inr (status_connected False), ?w1))"
    by (rule disjI1) code_simp
  have 2: "getitem_str (status_connected False) ''connected'' = Inr (JBool False)"
    by code_simp
  have 3: "\<not> truthy (JBool False)" by simp
  have 4: "upstream_disconnected (sent ?w1 @ [get_hosts_request ?c]) = Some ?r1"
    by code_simp
  have 5: "status_code ?r1 = 200" "body ?r1 = Some (JDict [(''result'', ?hosts)])"
    "getitem_str (JDict [(''result'', ?hosts)]) ''result'' = Inr ?hosts" by simp_all
  have 6: "upstream_disconnected
      (sent ?w1 @ [get_hosts_request ?c, connect_request ?c (JStr ''host1'')]) = Some ?r2"
    by code_simp
  from connect_recovery[OF 1 2 3 4 5] 6
  have "sent (snd (get_deluge_stats ?c upstream_disconnected world0))
      = sent ?w1 @ [get_hosts_request ?c, connect_request ?c (JStr ''host1''),
                    update_ui_request ?c]"
    by fastforce
  then show ?thesis by simp
qed

text \<open>
  Claim C5, as stated, fails for a host list that is malformed without being false: with
  the list \<^verbatim>\<open>[[]]\<close>, line 99 raises \<^verbatim>\<open>IndexError\<close>, which is none of the
  exceptions of \<^verbatim>\<open>get_connection\<close>.
\<close>

theorem connect_recovery_malformed_counterexample:
  "get_deluge_stats example_collector upstream_empty_host_entry world0
     = (Inl IndexError,
        \<lparr>sent = [update_ui_request example_collector, get_hosts_request example_collector],
         logged = [INFO ''Connecting Deluge Web UI...'' []]\<rparr>)"
  by code_simp

subsection \<open>Errors during a scrape and at start-up\<close>

text \<open>
  Claim C3, as the code has it. An exception of \<^verbatim>\<open>get_deluge_stats\<close> is caught and
  logged, and the scrape yields nothing. Once \<^verbatim>\<open>get_deluge_stats\<close> has returned, the
  scrape is the run of the mapping, the exception that ends it included: the \<^verbatim>\<open>try\<close>
  does not cover the mapping.
\<close>

theorem collect_catches_session_errors:
  "(get_deluge_stats self up w = (Inl e, w') \<longrightarrow>
      collect self up w = (\<lparr>yielded = [], raised = None\<rparr>, w'\<lparr>logged := logged w' @ [ERROR e]\<rparr>))
   \<and> (get_deluge_stats self up w = (Inr deluge_stats, w') \<longrightarrow>
      collect self up w = (fst (collect_metrics deluge_stats), w'))"
  by (simp add: collect_def logging_error_def)

theorem collect_catches_session_errors_witness:
  "collect example_collector upstream_rejects_login world0
     = (\<lparr>yielded = [], raised = None\<rparr>,
        \<lparr>sent = [update_ui_request example_collector, login_request example_collector],
         logged = [INFO ''Loging in Deluge Web UI...'' [], ERROR GetLoginBadCredentials]\<rparr>)"
proof -
  have "get_deluge_stats example_collector upstream_rejects_login world0
     = (Inl GetLoginBadCredentials,
        \<lparr>sent = [update_ui_request example_collector, login_request example_collector],
         logged = [INFO ''Loging in Deluge Web UI...'' []]\<rparr>)"
    by code_simp
  with collect_catches_session_errors[of example_collector upstream_rejects_login world0
      GetLoginBadCredentials
      "\<lparr>sent = [update_ui_request example_collector, login_request example_collector],
         logged = [INFO ''Loging in Deluge Web UI...'' []]\<rparr>"]
  show ?thesis by simp
qed

text \<open>
  Claim C3, as stated, fails for an exception of the mapping: with a torrent that has no
  name, the scrape yields three families and ends with \<^verbatim>\<open>KeyError\<close>, and nothing is
  logged.
\<close>

theorem collect_mapping_error_counterexample:
  "raised (fst (collect example_collector upstream_incomplete world0))
     = Some (KeyError (JStr ''name''))
   \<and> length (yielded (fst (collect example_collector upstream_incomplete world0))) = 3
   \<and> logged (snd (collect example_collector upstream_incomplete world0)) = []"
  by code_simp

text \<open>
  Claim C9. The constructor calls \<^verbatim>\<open>get_deluge_stats\<close> once and returns the collector
  only if the call returns. An exception of that call leaves the constructor and
  \<^verbatim>\<open>main\<close>, so that \<^verbatim>\<open>main\<close> neither registers the collector nor starts the server; the
  same exception in \<^verbatim>\<open>collect\<close> is logged, and the scrape yields nothing.
\<close>

theorem startup_error_propagates:
  assumes "self = \<lparr>deluge_api_url =
                    (if endswith_slash deluge_url then deluge_url else deluge_url @ ''/'') @ ''json'',
                  deluge_password = password\<rparr>"
  shows "DelugeCollector deluge_url password up w
           = (case get_deluge_stats self up w of
                (Inl e, w') \<Rightarrow> (Inl e, w')
              | (Inr deluge_stats, w') \<Rightarrow> (Inr self, w'))
       \<and> (\<forall>e w'. get_deluge_stats self up w = (Inl e, w') \<longrightarrow>
             DelugeCollector deluge_url password up w = (Inl e, w')
           \<and> main deluge_url password exporter_address exporter_port up w = (Inl e, w')
           \<and> collect self up w = (\<lparr>yielded = [], raised = None\<rparr>, logging_error e w'))"
  using assms
  by (auto simp: DelugeCollector_def main_def collect_def bindS_def Let_def
        split: sum.splits prod.splits)

theorem startup_error_propagates_witness:
  "main ''http://deluge:8112'' ''deluge'' ''0.0.0.0'' 8011 upstream_unreachable world0
     = (Inl RequestException, \<lparr>sent = [update_ui_request example_collector], logged = []\<rparr>)
   \<and> collect example_collector upstream_unreachable world0
     = (\<lparr>yielded = [], raised = None\<rparr>,
        \<lparr>sent = [update_ui_request example_collector], logged = [ERROR RequestException]\<rparr>)"
proof -
  have 1: "example_collector = \<lparr>deluge_api_url =
       (if endswith_slash ''http://deluge:8112'' then ''http://deluge:8112''
        else ''http://deluge:8112'' @ ''/'') @ ''json'',
       deluge_password = ''deluge''\<rparr>"
    by (simp add: example_collector_def endswith_slash_def)
  have 2: "get_deluge_stats example_collector upstream_unreachable world0
     = (Inl RequestException, \<lparr>sent = [update_ui_request example_collector], logged = []\<rparr>)"
    by code_simp
  from startup_error_propagates[OF 1, of upstream_unreachable world0 "''0.0.0.0''" 8011] 2
  show ?thesis by (simp add: logging_error_def)
qed

section \<open>Properties of the mapping\<close>

subsection \<open>Auxiliary facts\<close>

lemma lower_char_idem: "lower_char (lower_char c) = lower_char c"
  by (simp add: lower_char_def Let_def)

lemma lower_idem: "lower (lower s) = lower s"
  by (simp add: lower_def lower_char_idem)

lemma map_of_dict_set: "map_of (dict_set k v d) k' = (if k' = k then Some v else map_of d k')"
  by (induction d) auto

lemma dict_set_idem: "dict_set k v (dict_set k v d) = dict_set k v d"
  by (induction d) auto


lemma lower_method_Inr: "lower_method x = Inr y \<longleftrightarrow> (\<exists>s. x = JStr s \<and> y = JStr (lower s))"
  by (cases x) auto

lemma process_torrent_again:
  "process_torrent t res = (r, t') \<Longrightarrow> process_torrent t' res = (r, t')"
  by (cases t)
     (auto simp: process_torrent_def bindE_def map_of_dict_set lower_idem dict_set_idem
                 lower_method_Inr
           split: option.splits sum.splits json.splits)

lemma process_loop_again:
  "process_loop ts res = (r, ts') \<Longrightarrow> process_loop ts' res = (r, ts')"
proof (induction ts arbitrary: res r ts')
  case Nil
  then show ?case by simp
next
  case (Cons a ts)
  obtain tid t where a: "a = (tid, t)" by (cases a)
  obtain r1 t1 where p: "process_torrent t res = (r1, t1)" by (cases "process_torrent t res")
  have p': "process_torrent t1 res = (r1, t1)" using p by (rule process_torrent_again)
  show ?case
  proof (cases r1)
    case (Inl e)
    with Cons.prems a p p' show ?thesis by auto
  next
    case (Inr res')
    obtain r2 ts2 where l: "process_loop ts res' = (r2, ts2)" by (cases "process_loop ts res'")
    from Cons.IH[OF l] have "process_loop ts2 res' = (r2, ts2)" .
    with Cons.prems a p p' Inr l show ?thesis by auto
  qed
qed

lemma process_torrents_stats_again:
  "process_torrents_stats t = (r, t') \<Longrightarrow> process_torrents_stats t' = (r, t')"
  by (cases t) (auto split: prod.splits dest: process_loop_again)

lemma getitem_with_torrents_other:
  "k \<noteq> ''torrents'' \<Longrightarrow> getitem_str (with_torrents (JDict d) T) k = getitem_str (JDict d) k"
  by (simp add: with_torrents_def map_of_dict_set)

lemma getitem_with_torrents:
  "getitem_str (with_torrents (JDict d) T) ''torrents'' = Inr T"
  by (simp add: with_torrents_def map_of_dict_set)

lemma with_torrents_again:
  "with_torrents (with_torrents (JDict d) T) T = with_torrents (JDict d) T"
  by (simp add: with_torrents_def dict_set_idem)

lemma stages_with_torrents:
  "torrents_by_state (with_torrents (JDict d) T) = torrents_by_state (JDict d)"
  "torrents_by_label (with_torrents (JDict d) T) = torrents_by_label (JDict d)"
  "getitem_str (with_torrents (JDict d) T) ''stats'' = getitem_str (JDict d) ''stats''"
  by (simp_all add: torrents_by_state_def torrents_by_label_def getitem_with_torrents_other)

lemma collect_metrics_not_dict:
  "\<forall>d. ds \<noteq> JDict d \<Longrightarrow> collect_metrics ds = (\<lparr>yielded = [], raised = Some TypeError\<rparr>, ds)"
  by (cases ds) (simp_all add: collect_metrics_def torrents_by_state_def bindE_def)

lemma collect_metrics_again:
  "fst (collect_metrics (snd (collect_metrics ds))) = fst (collect_metrics ds)"
proof (cases ds)
  case (JDict d)
  show ?thesis
  proof (cases "getitem_str (JDict d) ''torrents''")
    case (Inl e)
    then show ?thesis unfolding JDict
      by (simp add: collect_metrics_def split: sum.splits)
  next
    case (Inr T)
    obtain r T' where p: "process_torrents_stats T = (r, T')"
      by (cases "process_torrents_stats T")
    have p': "process_torrents_stats T' = (r, T')"
      using p by (rule process_torrents_stats_again)
    show ?thesis unfolding JDict using Inr p p'
      by (cases r)
         (simp_all add: collect_metrics_def stages_with_torrents getitem_with_torrents
            with_torrents_again split: sum.splits)
  qed
qed (simp_all add: collect_metrics_not_dict)





lemma torrent_row_missing:
  "map_of t f = None \<Longrightarrow> f \<in> {''name'', ''state'', ''tracker_host'', field} \<Longrightarrow>
     \<exists>e. torrent_row (JDict t) field = Inl e"
  by (auto simp: torrent_row_def bindE_def split: option.splits sum.splits)

lemma torrent_row_Inr:
  "torrent_row (JDict t) field = Inr r \<Longrightarrow>
     map_of t ''name'' \<noteq> None \<and> map_of t ''state'' \<noteq> None \<and> map_of t ''tracker_host'' \<noteq> None
     \<and> map_of t field \<noteq> None"
  by (auto simp: torrent_row_def bindE_def split: option.splits sum.splits)

lemma append_rows_missing:
  "map_of t f = None \<Longrightarrow> f \<in> {''name'', ''state'', ''tracker_host''} \<union> snd ` set cs \<Longrightarrow>
     cs \<noteq> [] \<Longrightarrow> \<exists>e. append_rows (JDict t) cs res = Inl e"
proof (induction cs arbitrary: res)
  case Nil
  then show ?case by simp
next
  case (Cons a cs)
  obtain key field where a: "a = (key, field)" by (cases a)
  show ?case
  proof (cases "torrent_row (JDict t) field")
    case (Inl e)
    then show ?thesis by (simp add: a bindE_def)
  next
    case (Inr r)
    from torrent_row_Inr[OF Inr] Cons.prems(1,2) a
    have f: "f \<in> snd ` set cs" by auto
    then have "cs \<noteq> []" by auto
    with Cons.IH[OF Cons.prems(1)] f
    have "\<exists>e. append_rows (JDict t) cs (res_append key r res) = Inl e" by blast
    then show ?thesis by (simp add: a Inr bindE_def)
  qed
qed

lemma process_torrent_missing:
  assumes "map_of t f = None" "f \<in> set required_fields"
  shows "\<exists>e t'. process_torrent (JDict t) res = (Inl e, t')"
proof (cases "bindE (getitem_str (JDict t) ''state'') lower_method")
  case (Inl e)
  then show ?thesis by (simp add: process_torrent_def)
next
  case (Inr s)
  then have "map_of t ''state'' \<noteq> None" by (auto simp: bindE_def split: option.splits)
  with assms have f: "f \<noteq> ''state''" "f \<in> {''name'', ''state'', ''tracker_host''} \<union> snd ` set counters"
    by (auto simp: required_fields_def counters_def)
  then have "map_of (dict_set ''state'' s t) f = None"
    using assms(1) by (simp add: map_of_dict_set)
  from append_rows_missing[OF this f(2)]
  obtain e where "append_rows (JDict (dict_set ''state'' s t)) counters res = Inl e"
    by (auto simp: counters_def)
  then show ?thesis using Inr by (simp add: process_torrent_def)
qed

lemma process_loop_missing:
  assumes "(tid, JDict t) \<in> set ts" "map_of t f = None" "f \<in> set required_fields"
  shows "\<exists>e ts'. process_loop ts res = (Inl e, ts')"
  using assms(1)
proof (induction ts arbitrary: res)
  case Nil
  then show ?case by simp
next
  case (Cons a ts)
  obtain i x where a: "a = (i, x)" by (cases a)
  obtain r1 x1 where p: "process_torrent x res = (r1, x1)" by (cases "process_torrent x res")
  show ?case
  proof (cases r1)
    case (Inl e)
    with a p show ?thesis by simp
  next
    case (Inr res')
    have "a \<noteq> (tid, JDict t)"
      using process_torrent_missing[OF assms(2,3), of res] a p Inr by auto
    with Cons.prems have "(tid, JDict t) \<in> set ts" by simp
    from Cons.IH[OF this, of res'] obtain e ts' where "process_loop ts res' = (Inl e, ts')"
      by blast
    with a p Inr show ?thesis by simp
  qed
qed

lemma torrents_by_state_family:
  "torrents_by_state ds = Inr m \<Longrightarrow> metric_name m = ''deluge_torrent_state_count'' \<and> labelnames m = [''state'']"
  by (auto simp: torrents_by_state_def bindE_def split: sum.splits)

lemma torrents_by_label_family:
  "torrents_by_label ds = Inr m \<Longrightarrow> metric_name m = ''deluge_torrent_label_count'' \<and> labelnames m = [''label'']"
  by (auto simp: torrents_by_label_def bindE_def split: sum.splits)

lemma other_stats_labelnames: "filter (\<lambda>m. labelnames m = []) (other_stats stats) = other_stats stats"
  by (induction stats) auto

lemma other_stats_no_torrent_labels:
  "filter (\<lambda>m. labelnames m = [''name'', ''state'', ''tracker_host'']) (other_stats stats) = []"
  by (induction stats) auto

lemma numeric_isinstance: "numeric v \<longleftrightarrow> isinstance_int v \<or> isinstance_float v"
  by (cases v) simp_all

lemma other_stats_entries:
  "other_stats stats = concat (map (\<lambda>(key, v). if numeric v then [stats_metric key v] else []) stats)"
  by (induction stats) (auto simp: numeric_isinstance stats_metric_def)

lemma torrent_metric_sel:
  "labelnames (torrent_metric key r) = [''name'', ''state'', ''tracker_host'']"
  "\<exists>a b c d. samples (torrent_metric key r) = [([a, b, c], d)]"
  by (cases r; simp add: torrent_metric_def)+

lemma torrents_stats_member:
  "m \<in> set (torrents_stats res) \<Longrightarrow> \<exists>key r. m = torrent_metric key r"
  by (fastforce simp: torrents_stats_def)

lemma torrents_stats_labelled:
  "filter (\<lambda>m. labelnames m = []) (torrents_stats res) = []"
proof -
  have "labelnames m \<noteq> []" if "m \<in> set (torrents_stats res)" for m
    using torrents_stats_member[OF that] by (auto simp: torrent_metric_sel)
  then show ?thesis by (simp add: filter_empty_conv)
qed

lemma add_filter_metrics_labels:
  "add_filter_metrics es = Inr ss \<Longrightarrow> list_all (\<lambda>(ls, v). length ls = 1) ss"
  by (induction es arbitrary: ss) (auto simp: bindE_def split: sum.splits)

lemma filter_family_labelled:
  assumes "list_all (\<lambda>(ls, v). length ls = 1) (samples m)" "length (labelnames m) = 1"
  shows "filter (\<lambda>(n, ls, x). ls = []) (observations [m]) = []"
proof -
  have "\<And>ls v. (ls, v) \<in> set (samples m) \<Longrightarrow> zip (labelnames m) ls \<noteq> []"
  proof -
    fix ls v assume "(ls, v) \<in> set (samples m)"
    with assms(1) have "length ls = 1" by (auto simp: list_all_iff)
    with assms(2) have "length (zip (labelnames m) ls) = 1" by simp
    then show "zip (labelnames m) ls \<noteq> []" by auto
  qed
  then show ?thesis
    by (auto simp: observations_def filter_empty_conv)
qed

lemma torrents_by_state_samples:
  "torrents_by_state ds = Inr m \<Longrightarrow> list_all (\<lambda>(ls, v). length ls = 1) (samples m)"
  by (auto simp: torrents_by_state_def bindE_def split: sum.splits
        dest: add_filter_metrics_labels)

lemma torrents_by_label_samples:
  "torrents_by_label ds = Inr m \<Longrightarrow> list_all (\<lambda>(ls, v). length ls = 1) (samples m)"
  by (auto simp: torrents_by_label_def bindE_def split: sum.splits
        dest: add_filter_metrics_labels)

lemma observations_labelled:
  assumes "\<And>m ls v. m \<in> set ms \<Longrightarrow> (ls, v) \<in> set (samples m) \<Longrightarrow> zip (labelnames m) ls \<noteq> []"
  shows "filter (\<lambda>(n, ls, x). ls = []) (observations ms) = []"
  using assms by (fastforce simp: observations_def filter_empty_conv)

lemma torrents_stats_observations_labelled:
  "filter (\<lambda>(n, ls, x). ls = []) (observations (torrents_stats res)) = []"
proof (rule observations_labelled)
  fix m ls v
  assume "m \<in> set (torrents_stats res)" and s: "(ls, v) \<in> set (samples m)"
  then obtain key r where m: "m = torrent_metric key r"
    using torrents_stats_member by blast
  from torrent_metric_sel(2)[of key r] obtain a b c d where
    "samples (torrent_metric key r) = [([a, b, c], d)]" by blast
  with s m have "ls = [a, b, c]" by simp
  then show "zip (labelnames m) ls \<noteq> []"
    by (simp add: m torrent_metric_sel(1))
qed

lemma filter_conj_empty:
  "filter (\<lambda>(n, ls, x). ls = []) xs = [] \<Longrightarrow> filter (\<lambda>(n, ls, x). n = a \<and> ls = []) xs = []"
  by (auto simp: filter_empty_conv)

lemma other_stats_observations_none:
  "lower key \<notin> set (map (\<lambda>(k, v). lower k) stats) \<Longrightarrow>
     filter (\<lambda>(n, ls, x). n = ''deluge_'' @ lower key \<and> ls = []) (observations (other_stats stats)) = []"
  by (induction stats) (auto simp: observations_def)

lemma other_stats_observations_one:
  "distinct (map (\<lambda>(k, v). lower k) stats) \<Longrightarrow> (key, v) \<in> set stats \<Longrightarrow>
     filter (\<lambda>(n, ls, x). n = ''deluge_'' @ lower key \<and> ls = []) (observations (other_stats stats))
       = (if numeric v then [(''deluge_'' @ lower key, [], v)] else [])"
proof (induction stats)
  case Nil
  then show ?case by simp
next
  case (Cons a stats)
  obtain k' v' where a: "a = (k', v')" by (cases a)
  show ?case
  proof (cases "(key, v) = (k', v')")
    case True
    with Cons.prems a have "lower key \<notin> set (map (\<lambda>(k, v). lower k) stats)" by auto
    from other_stats_observations_none[OF this] True a show ?thesis
      by (cases "numeric v") (simp_all add: numeric_isinstance observations_def)
  next
    case False
    with Cons.prems a have in_rest: "(key, v) \<in> set stats" by auto
    then have "lower key \<in> set (map (\<lambda>(k, v). lower k) stats)" by force
    with Cons.prems(1) a have "lower k' \<noteq> lower key" by auto
    with Cons.IH in_rest Cons.prems(1) a show ?thesis
      by (simp add: observations_def)
  qed
qed

lemma collect_metrics_reaches_stats:
  assumes "torrents_by_state deluge_stats = Inr m1"
    and "torrents_by_label deluge_stats = Inr m2"
    and "getitem_str deluge_stats ''stats'' = Inr (JDict stats)"
  shows "\<exists>rest. yielded (fst (collect_metrics deluge_stats)) = [m1, m2] @ other_stats stats @ rest
           \<and> (rest = [] \<or> (\<exists>res. rest = torrents_stats res))"
    and "raised (fst (collect_metrics deluge_stats))
          = (case getitem_str deluge_stats ''torrents'' of
               Inl e \<Rightarrow> Some e
             | Inr torrents \<Rightarrow>
                 (case fst (process_torrents_stats torrents) of
                    Inl e \<Rightarrow> Some e | Inr res \<Rightarrow> None))"
  using assms
  by (auto simp: collect_metrics_def bindE_simps split: sum.splits prod.splits)

text \<open>The two filter families are produced for every status whose filters have that form.\<close>

lemma add_filter_metrics_ok:
  "list_all filter_entry_ok es \<Longrightarrow> \<exists>ss. add_filter_metrics es = Inr ss"
proof (induction es)
  case Nil
  then show ?case by simp
next
  case (Cons e es)
  then obtain ss where "add_filter_metrics es = Inr ss" by auto
  moreover from Cons.prems obtain l v others where "e = JList (JStr l # v # others)"
    by (auto elim: filter_entry_ok.elims(2))
  ultimately show ?case by (simp add: bindE_def)
qed

lemma filters_ok_produced:
  assumes "filters_ok deluge_stats"
  shows "\<exists>m1 m2. torrents_by_state deluge_stats = Inr m1 \<and> torrents_by_label deluge_stats = Inr m2"
proof -
  from assms obtain filters where f: "getitem_str deluge_stats ''filters'' = Inr (JDict filters)"
    by (auto simp: filters_ok_def split: sum.splits json.splits)
  from assms f obtain states where s: "map_of filters ''state'' = Some (JList states)"
    "list_all filter_entry_ok states"
    by (auto simp: filters_ok_def split: option.splits json.splits)
  from add_filter_metrics_ok[OF s(2)] obtain ss where "add_filter_metrics states = Inr ss" ..
  with f s(1) have 1: "\<exists>m1. torrents_by_state deluge_stats = Inr m1"
    by (simp add: torrents_by_state_def bindE_def)
  have 2: "\<exists>m2. torrents_by_label deluge_stats = Inr m2"
  proof (cases "map_of filters ''label''")
    case None
    with f show ?thesis by (simp add: torrents_by_label_def bindE_def)
  next
    case (Some x)
    with assms f obtain labels where l: "x = JList labels" "list_all filter_entry_ok labels"
      by (auto simp: filters_ok_def split: json.splits)
    from add_filter_metrics_ok[OF l(2)] obtain ss where "add_filter_metrics labels = Inr ss" ..
    with f Some l(1) show ?thesis by (simp add: torrents_by_label_def bindE_def)
  qed
  from 1 2 show ?thesis by blast
qed

subsection \<open>A torrent record with a missing field\<close>

text \<open>
  Claim C2, as the code has it. Let the two filter families be produced and the stats and
  the torrents be dictionaries, and let some torrent record lack its name, its state, its tracker host or one of the nine
  counters. Then the run yields the two filter families and the stats families and nothing
  else, so no family for any torrent, complete or not, and it ends with an exception.
\<close>

theorem incomplete_torrent_stops_torrent_metrics:
  assumes "torrents_by_state deluge_stats = Inr m1"
    and "torrents_by_label deluge_stats = Inr m2"
    and "getitem_str deluge_stats ''stats'' = Inr (JDict stats)"
    and "getitem_str deluge_stats ''torrents'' = Inr (JDict torrents)"
    and "(tid, JDict t) \<in> set torrents"
    and "field \<in> set required_fields"
    and "map_of t field = None"
  shows "yielded (fst (collect_metrics deluge_stats)) = [m1, m2] @ other_stats stats
       \<and> filter (\<lambda>m. labelnames m = [''name'', ''state'', ''tracker_host''])
            (yielded (fst (collect_metrics deluge_stats))) = []
       \<and> raised (fst (collect_metrics deluge_stats)) \<noteq> None"
proof -
  from process_loop_missing[OF assms(5,7,6), of res_init]
  obtain e ts' where "process_loop torrents res_init = (Inl e, ts')" by blast
  then have "process_torrents_stats (JDict torrents) = (Inl e, JDict ts')" by simp
  with assms(1-4) have c: "fst (collect_metrics deluge_stats)
      = \<lparr>yielded = [m1, m2] @ other_stats stats, raised = Some e\<rparr>"
    by (simp add: collect_metrics_def bindE_simps)
  show ?thesis
    using torrents_by_state_family[OF assms(1)] torrents_by_label_family[OF assms(2)]
    by (simp add: c other_stats_no_torrent_labels)
qed

theorem incomplete_torrent_stops_torrent_metrics_witness:
  "yielded (fst (collect_metrics example_status_incomplete))
     = [\<lparr>metric_name = ''deluge_torrent_state_count'',
          documentation = ''Number of torrents by state'',
          labelnames = [''state''], samples = [([JStr ''seeding''], JInt 2)]\<rparr>,
        \<lparr>metric_name = ''deluge_torrent_label_count'',
          documentation = ''Number of torrents by label'',
          labelnames = [''label''], samples = []\<rparr>]
       @ other_stats [(''upload_rate'', JInt 1024)]
   \<and> raised (fst (collect_metrics example_status_incomplete)) \<noteq> None"
proof -
  let ?t2 = "[(''state'', JStr ''Seeding''), (''tracker_host'', JStr ''h''),
             (''total_uploaded'', JInt 1), (''total_wanted'', JInt 2), (''total_done'', JInt 3),
             (''download_payload_rate'', JInt 4), (''upload_payload_rate'', JInt 5),
             (''total_peers'', JInt 6), (''total_seeds'', JInt 7), (''num_peers'', JInt 8),
             (''num_seeds'', JInt 9)]"
  let ?t1 = "[(''name'', JStr ''A''), (''state'', JStr ''Seeding''), (''tracker_host'', JStr ''h''),
             (''total_uploaded'', JInt 1), (''total_wanted'', JInt 2), (''total_done'', JInt 3),
             (''download_payload_rate'', JInt 4), (''upload_payload_rate'', JInt 5),
             (''total_peers'', JInt 6), (''total_seeds'', JInt 7), (''num_peers'', JInt 8),
             (''num_seeds'', JInt 9)]"
  have 1: "torrents_by_state example_status_incomplete
      = Inr \<lparr>metric_name = ''deluge_torrent_state_count'',
          documentation = ''Number of torrents by state'',
          labelnames = [''state''], samples = [([JStr ''seeding''], JInt 2)]\<rparr>"
    by code_simp
  have 2: "torrents_by_label example_status_incomplete
      = Inr \<lparr>metric_name = ''deluge_torrent_label_count'',
          documentation = ''Number of torrents by label'',
          labelnames = [''label''], samples = []\<rparr>"
    by code_simp
  have 3: "getitem_str example_status_incomplete ''stats''
      = Inr (JDict [(''upload_rate'', JInt 1024)])"
    by code_simp
  have 4: "getitem_str example_status_incomplete ''torrents''
      = Inr (JDict [(''t1'', JDict ?t1), (''t2'', JDict ?t2)])"
    by code_simp
  have 5: "(''t2'', JDict ?t2) \<in> set [(''t1'', JDict ?t1), (''t2'', JDict ?t2)]"
    by simp
  have 6: "''name'' \<in> set required_fields"
    by (simp add: required_fields_def)
  have 7: "map_of ?t2 ''name'' = None"
    by simp
  from incomplete_torrent_stops_torrent_metrics[OF 1 2 3 4 5 6 7]
  show ?thesis by simp
qed

text \<open>
  Claim C2, as stated, fails: in \<open>example_status_incomplete\<close> the torrent \<open>t1\<close> is
  complete and \<open>t2\<close> has no name; the run yields nothing for \<open>t1\<close> and ends with
  \<^verbatim>\<open>KeyError\<close>.
\<close>

theorem incomplete_torrent_counterexample:
  "fst (collect_metrics example_status_incomplete)
     = \<lparr>yielded =
          [\<lparr>metric_name = ''deluge_torrent_state_count'',
             documentation = ''Number of torrents by state'',
             labelnames = [''state''], samples = [([JStr ''seeding''], JInt 2)]\<rparr>,
           \<lparr>metric_name = ''deluge_torrent_label_count'',
             documentation = ''Number of torrents by label'',
             labelnames = [''label''], samples = []\<rparr>,
           \<lparr>metric_name = ''deluge_upload_rate'', documentation = ''Deluge metric upload_rate'',
             labelnames = [], samples = [([], JInt 1024)]\<rparr>],
        raised = Some (KeyError (JStr ''name''))\<rparr>"
  by code_simp

subsection \<open>What a run writes into the status\<close>




subsection \<open>Mapping a status twice\<close>

text \<open>
  Claim C7. Mapping the same status a second time yields the same multiset of
  observations as the first time. The second run starts from the status as the first run
  left it; the families are then yielded in the same order and the run ends the same way.
\<close>

theorem mapping_twice_same_observations:
  "mset (observations (yielded (fst (collect_metrics (snd (collect_metrics deluge_stats))))))
     = mset (observations (yielded (fst (collect_metrics deluge_stats))))
   \<and> raised (fst (collect_metrics (snd (collect_metrics deluge_stats))))
     = raised (fst (collect_metrics deluge_stats))"
  by (simp add: collect_metrics_again)

subsection \<open>The entries of the stats\<close>

text \<open>
  Claim C8. Let the two filter families be produced and the stats be a dictionary. The
  families without labels that the run yields are then, in the order of the entries, one
  for each entry with a numeric value, named \<open>deluge_\<close> and the lower-cased key and
  holding one sample with that value, and none for any other entry. When no two keys have
  the same lower-cased form, the observations without labels under the name of an entry
  are that one observation if its value is numeric and none otherwise. An exception of the
  run can only come from the torrents, whatever the values of the stats are.
\<close>

theorem stats_entries_emitted_iff_numeric:
  assumes "torrents_by_state deluge_stats = Inr m1"
    and "torrents_by_label deluge_stats = Inr m2"
    and "getitem_str deluge_stats ''stats'' = Inr (JDict stats)"
  shows "filter (\<lambda>m. labelnames m = []) (yielded (fst (collect_metrics deluge_stats)))
           = concat (map (\<lambda>(key, v). if numeric v then [stats_metric key v] else []) stats)
       \<and> (distinct (map (\<lambda>(key, v). lower key) stats) \<longrightarrow>
            (\<forall>(key, v) \<in> set stats.
               filter (\<lambda>(n, ls, x). n = ''deluge_'' @ lower key \<and> ls = [])
                      (observations (yielded (fst (collect_metrics deluge_stats))))
                 = (if numeric v then [(''deluge_'' @ lower key, [], v)] else [])))
       \<and> raised (fst (collect_metrics deluge_stats))
           = (case getitem_str deluge_stats ''torrents'' of
                Inl e \<Rightarrow> Some e
              | Inr torrents \<Rightarrow>
                  (case fst (process_torrents_stats torrents) of
                     Inl e \<Rightarrow> Some e | Inr res \<Rightarrow> None))"
proof -
  from collect_metrics_reaches_stats(1)[OF assms] obtain rest where
    y: "yielded (fst (collect_metrics deluge_stats)) = [m1, m2] @ other_stats stats @ rest"
    and rest: "rest = [] \<or> (\<exists>res. rest = torrents_stats res)" by blast
  note l1 = torrents_by_state_family[OF assms(1)] and l2 = torrents_by_label_family[OF assms(2)]
  have r1: "filter (\<lambda>m. labelnames m = []) rest = []"
    using rest by (auto simp: torrents_stats_labelled)
  have A: "filter (\<lambda>m. labelnames m = []) (yielded (fst (collect_metrics deluge_stats)))
           = concat (map (\<lambda>(key, v). if numeric v then [stats_metric key v] else []) stats)"
  proof -
    have "filter (\<lambda>m. labelnames m = []) (yielded (fst (collect_metrics deluge_stats)))
        = other_stats stats"
      using l1 l2 r1 by (simp add: y other_stats_labelnames)
    then show ?thesis by (simp only: other_stats_entries)
  qed
  have o1: "filter (\<lambda>(n, ls, x). ls = []) (observations [m1]) = []"
    using torrents_by_state_samples[OF assms(1)] l1 by (intro filter_family_labelled) simp_all
  have o2: "filter (\<lambda>(n, ls, x). ls = []) (observations [m2]) = []"
    using torrents_by_label_samples[OF assms(2)] l2 by (intro filter_family_labelled) simp_all
  have o3: "filter (\<lambda>(n, ls, x). ls = []) (observations rest) = []"
  proof (cases "rest = []")
    case True
    then show ?thesis by (simp add: observations_def)
  next
    case False
    with rest obtain res where "rest = torrents_stats res" by blast
    then show ?thesis by (simp only: torrents_stats_observations_labelled)
  qed
  have B: "filter (\<lambda>(n, ls, x). n = ''deluge_'' @ lower key \<and> ls = [])
                      (observations (yielded (fst (collect_metrics deluge_stats))))
                 = (if numeric v then [(''deluge_'' @ lower key, [], v)] else [])"
    if "distinct (map (\<lambda>(key, v). lower key) stats)" "(key, v) \<in> set stats" for key v
  proof -
    have "observations (yielded (fst (collect_metrics deluge_stats)))
        = observations [m1] @ observations [m2] @ observations (other_stats stats)
          @ observations rest"
      unfolding y by (simp add: observations_def)
    then show ?thesis
      using filter_conj_empty[OF o1] filter_conj_empty[OF o2] filter_conj_empty[OF o3]
        other_stats_observations_one[OF that]
      by simp
  qed
  from A B collect_metrics_reaches_stats(2)[OF assms] show ?thesis by blast
qed

theorem stats_entries_emitted_iff_numeric_witness:
  "filter (\<lambda>m. labelnames m = []) (yielded (fst (collect_metrics example_status)))
     = [stats_metric ''upload_rate'' (JInt 1024)]
   \<and> filter (\<lambda>(n, ls, x). n = ''deluge_upload_rate'' \<and> ls = [])
        (observations (yielded (fst (collect_metrics example_status))))
     = [(''deluge_upload_rate'', [], JInt 1024)]
   \<and> filter (\<lambda>(n, ls, x). n = ''deluge_external_ip'' \<and> ls = [])
        (observations (yielded (fst (collect_metrics example_status)))) = []
   \<and> raised (fst (collect_metrics example_status)) = None"
proof -
  let ?stats = "[(''upload_rate'', JInt 1024), (''external_ip'', JStr ''10.0.0.1'')]"
  have 1: "torrents_by_state example_status
      = Inr \<lparr>metric_name = ''deluge_torrent_state_count'',
          documentation = ''Number of torrents by state'',
          labelnames = [''state''], samples = [([JStr ''seeding''], JInt 1)]\<rparr>"
    by code_simp
  have 2: "torrents_by_label example_status
      = Inr \<lparr>metric_name = ''deluge_torrent_label_count'',
          documentation = ''Number of torrents by label'',
          labelnames = [''label''], samples = []\<rparr>"
    by code_simp
  have 3: "getitem_str example_status ''stats'' = Inr (JDict ?stats)"
    by code_simp
  have 4: "distinct (map (\<lambda>(key, v). lower key) ?stats)"
    by code_simp
  have 5: "lower ''upload_rate'' = ''upload_rate''" "lower ''external_ip'' = ''external_ip''"
    by code_simp+
  have 6: "(case getitem_str example_status ''torrents'' of
                Inl e \<Rightarrow> Some e
              | Inr torrents \<Rightarrow>
                  (case fst (process_torrents_stats torrents) of
                     Inl e \<Rightarrow> Some e | Inr res \<Rightarrow> None)) = None"
    by code_simp
  from stats_entries_emitted_iff_numeric[OF 1 2 3] 4 5 6
  show ?thesis by simp
qed

text \<open>
  Claim C10. An entry of the stats whose value is a boolean is emitted like a number: the
  run yields its family, the observation has no labels and the boolean as its value, and
  that value is the integer 0 or 1.
\<close>

theorem boolean_stats_are_emitted:
  assumes "torrents_by_state deluge_stats = Inr m1"
    and "torrents_by_label deluge_stats = Inr m2"
    and "getitem_str deluge_stats ''stats'' = Inr (JDict stats)"
    and "(key, JBool b) \<in> set stats"
  shows "stats_metric key (JBool b) \<in> set (yielded (fst (collect_metrics deluge_stats)))
       \<and> (''deluge_'' @ lower key, [], JBool b)
            \<in> set (observations (yielded (fst (collect_metrics deluge_stats))))
       \<and> (int_value (JBool b) = Some 0 \<or> int_value (JBool b) = Some 1)"
proof -
  from collect_metrics_reaches_stats(1)[OF assms(1,2,3)] obtain rest where
    y: "yielded (fst (collect_metrics deluge_stats)) = [m1, m2] @ other_stats stats @ rest"
    by blast
  have m: "stats_metric key (JBool b) \<in> set (other_stats stats)"
    using assms(4) by (force simp: other_stats_entries)
  then have "(''deluge_'' @ lower key, [], JBool b) \<in> set (observations (other_stats stats))"
    by (force simp: observations_def stats_metric_def)
  with m show ?thesis by (auto simp: y observations_def)
qed

theorem boolean_stats_are_emitted_witness:
  "stats_metric ''has_incoming_connections'' (JBool True)
      \<in> set (yielded (fst (collect_metrics example_status_bool)))
   \<and> (''deluge_has_incoming_connections'', [], JBool True)
      \<in> set (observations (yielded (fst (collect_metrics example_status_bool))))
   \<and> int_value (JBool True) = Some 1"
proof -
  let ?stats = "[(''has_incoming_connections'', JBool True)]"
  have 1: "torrents_by_state example_status_bool
      = Inr \<lparr>metric_name = ''deluge_torrent_state_count'',
          documentation = ''Number of torrents by state'',
          labelnames = [''state''], samples = []\<rparr>"
    by code_simp
  have 2: "torrents_by_label example_status_bool
      = Inr \<lparr>metric_name = ''deluge_torrent_label_count'',
          documentation = ''Number of torrents by label'',
          labelnames = [''label''], samples = []\<rparr>"
    by code_simp
  have 3: "getitem_str example_status_bool ''stats'' = Inr (JDict ?stats)"
    by code_simp
  have 4: "(''has_incoming_connections'', JBool True) \<in> set ?stats"
    by simp
  have 5: "lower ''has_incoming_connections'' = ''has_incoming_connections''"
    by code_simp
  from boolean_stats_are_emitted[OF 1 2 3 4] 5
  show ?thesis by simp
qed

end
